theory Spec2Isabelle
  imports Complex_Main
begin

section \<open>fileshare: the session coordinator of main.go\<close>

text \<open>
  A shallow embedding of \<^verbatim>\<open>main.go\<close>: the \<^verbatim>\<open>FileServer\<close> with its transfer
  status, admission slot and transfer log, and the HTTP handlers that change them.
  Every handler is a function from the server before the request to the response and
  the server after it. What a handler learns from the operating system (stat, open,
  read and write results) is an explicit argument, so that every error return of the
  source is a branch here. A handler runs on one worker from start to end; the
  interleaving of several workers is not part of this model.
\<close>

subsection \<open>Data model\<close>

text \<open>
  \<^verbatim>\<open>TransferStatus\<close>. \<^verbatim>\<open>int64\<close> fields are integers, wrapped by \<open>int64\<close> below
  wherever the source adds to them. \<^verbatim>\<open>Progress\<close> is the exact quotient; the rounding
  of \<^verbatim>\<open>float64\<close> is not modelled. A \<^verbatim>\<open>time.Time\<close> is a number of seconds;
  \<^verbatim>\<open>Start\<close>, which stamps \<^verbatim>\<open>LastUpdateTime\<close> before the first request, is not
  modelled, nor is any other part of the process start-up.
\<close>

record TransferStatus =
  Mode :: string
  Path :: string
  Size :: int
  Transferred :: int
  Progress :: real
  Status :: string
  Error :: string
  ClientIP :: string
  StartTime :: nat
  LastUpdateTime :: nat

text \<open>
  What \<^verbatim>\<open>broadcastStatus\<close> formats into its JSON line: the five values of
  \<^verbatim>\<open>{"status","progress","transferred","client_ip","error"}\<close>.
\<close>

record snapshot =
  snap_status :: string
  snap_progress :: real
  snap_transferred :: int
  snap_client_ip :: string
  snap_error :: string

text \<open>
  \<^verbatim>\<open>FileServer\<close>. The locks are dropped (one worker). The subscriber channels of
  \<^verbatim>\<open>sseClients\<close> are replaced by \<open>sent\<close>, the sequence of snapshots that
  \<^verbatim>\<open>broadcastStatus\<close> has offered to them, oldest first.
\<close>

record FileServer =
  mode :: string
  path :: string
  port :: int
  status :: TransferStatus
  sent :: "snapshot list"
  autoExit :: bool
  activeClient :: string
  transferLog :: "string list"

text \<open>
  The part of \<^verbatim>\<open>http.Request\<close> the handlers read, and \<open>BodyLength\<close>, the length of
  the request body, which no handler reads: how much of the body has been read is the
  parser's result (see \<open>up_parsed\<close> below).
\<close>

record file_part =
  part_key :: string
  part_Filename :: string
  part_Size :: int
  part_reads :: "(string \<times> string option) list"

record request =
  Method :: string
  RemoteAddr :: string
  Header_Range :: string
  BodyLength :: nat
  multipart :: "file_part list option"

text \<open>
  \<^verbatim>\<open>filepath.Base\<close> for slash-separated paths: trailing slashes are dropped, the
  last element is returned, an empty path is \<^verbatim>\<open>"."\<close> and a path of slashes only
  is \<^verbatim>\<open>"/"\<close>.
\<close>

definition filepath_Base :: "string \<Rightarrow> string" where
  "filepath_Base p =
     (if p = [] then ''.''
      else let q = rev (dropWhile (\<lambda>c. c = CHR ''/'') (rev p))
           in if q = [] then ''/''
              else rev (takeWhile (\<lambda>c. c \<noteq> CHR ''/'') (rev q)))"

definition NewFileServer :: "nat \<Rightarrow> string \<Rightarrow> string \<Rightarrow> int \<Rightarrow> bool \<Rightarrow> FileServer" where
  "NewFileServer now m p prt ae =
     \<lparr> mode = m, path = p, port = prt,
       status = \<lparr> Mode = m, Path = filepath_Base p, Size = 0, Transferred = 0,
                  Progress = 0, Status = ''waiting'', Error = [], ClientIP = [],
                  StartTime = now, LastUpdateTime = 0 \<rparr>,
       sent = [], autoExit = ae, activeClient = [], transferLog = [] \<rparr>"

subsection \<open>Broadcast and transfer log\<close>

definition broadcastStatus :: "FileServer \<Rightarrow> FileServer" where
  "broadcastStatus fs =
     fs\<lparr> sent := sent fs @
            [\<lparr> snap_status = Status (status fs), snap_progress = Progress (status fs),
               snap_transferred = Transferred (status fs),
               snap_client_ip = activeClient fs, snap_error = Error (status fs) \<rparr>] \<rparr>"

text \<open>
  \<^verbatim>\<open>time.Now().Format("15:04:05")\<close>: hour, minute and second of the day, two digits
  each (the time zone is not modelled).
\<close>

definition digit2 :: "nat \<Rightarrow> string" where
  "digit2 n = [''0123456789'' ! ((n div 10) mod 10), ''0123456789'' ! (n mod 10)]"

definition Format_150405 :: "nat \<Rightarrow> string" where
  "Format_150405 t =
     digit2 ((t div 3600) mod 24) @ '':'' @ digit2 ((t div 60) mod 60) @ '':'' @ digit2 (t mod 60)"

definition logEntry :: "nat \<Rightarrow> string \<Rightarrow> string" where
  "logEntry now message = ''['' @ Format_150405 now @ ''] '' @ message"

definition addLog :: "nat \<Rightarrow> string \<Rightarrow> FileServer \<Rightarrow> FileServer" where
  "addLog now message fs =
     (let l = transferLog fs @ [logEntry now message];
          l' = (if length l > 100 then drop (length l - 100) l else l)
      in broadcastStatus (fs\<lparr> transferLog := l' \<rparr>))"

text \<open>A run of \<^verbatim>\<open>addLog\<close> calls, each with the time of its call.\<close>

fun addLogs :: "(nat \<times> string) list \<Rightarrow> FileServer \<Rightarrow> FileServer" where
  "addLogs [] fs = fs"
| "addLogs ((now, message) # ms) fs = addLogs ms (addLog now message fs)"

subsection \<open>Peer identity and the admission slot\<close>

text \<open>
  \<^verbatim>\<open>strings.LastIndex(s, ":")\<close>, for the one-byte separator the source passes: the
  index of the last occurrence, or \<open>-1\<close>.
\<close>

fun LastIndex :: "string \<Rightarrow> char \<Rightarrow> int" where
  "LastIndex [] c = - 1"
| "LastIndex (x # xs) c =
     (let r = LastIndex xs c
      in if r \<noteq> - 1 then r + 1 else if x = c then 0 else - 1)"

definition TrimLeft :: "string \<Rightarrow> string \<Rightarrow> string" where
  "TrimLeft s cutset = dropWhile (\<lambda>c. c \<in> set cutset) s"

definition TrimRight :: "string \<Rightarrow> string \<Rightarrow> string" where
  "TrimRight s cutset = rev (dropWhile (\<lambda>c. c \<in> set cutset) (rev s))"

definition Trim :: "string \<Rightarrow> string \<Rightarrow> string" where
  "Trim s cutset = TrimRight (TrimLeft s cutset) cutset"

definition getClientIP :: "request \<Rightarrow> string" where
  "getClientIP r =
     (let ip = RemoteAddr r;
          idx = LastIndex ip (CHR '':'');
          ip' = (if idx \<noteq> - 1 then take (nat idx) ip else ip)
      in Trim ip' ''[]'')"

definition acquireClient :: "string \<Rightarrow> FileServer \<Rightarrow> bool \<times> FileServer" where
  "acquireClient clientIP fs =
     (if activeClient fs \<noteq> [] \<and> activeClient fs \<noteq> clientIP then (False, fs)
      else if activeClient fs = [] then (True, fs\<lparr> activeClient := clientIP \<rparr>)
      else (True, fs))"

definition releaseClient :: "nat \<Rightarrow> string \<Rightarrow> FileServer \<Rightarrow> FileServer" where
  "releaseClient now clientIP fs =
     (if activeClient fs = clientIP
      then addLog now (''Client '' @ clientIP @ '' disconnected'') (fs\<lparr> activeClient := [] \<rparr>)
      else fs)"

subsection \<open>Responses\<close>

text \<open>
  What a handler leaves on its \<^verbatim>\<open>http.ResponseWriter\<close>: the status code (200 unless
  set), the headers, and what was written to the peer, in order. \<open>Data\<close> is bytes
  written as they are; \<open>ZipHeader\<close>, \<open>ZipData\<close> and \<open>ZipClose\<close> are the calls on the
  \<^verbatim>\<open>zip.Writer\<close> that wraps the response (an entry header, the number of bytes copied
  into the entry, the closing central directory); \<open>Served\<close> is the hand-over to
  \<^verbatim>\<open>http.ServeContent\<close>. \<open>bodyRead\<close> counts the bytes of the request body the server
  has read from the peer. \<open>panicked\<close> is set when the handler panics: the deferred
  calls have run and the connection is dropped.
\<close>

datatype out_item = Data string | ZipHeader string | ZipData int | ZipClose | Served

record response =
  code :: nat
  headers :: "string \<rightharpoonup> string"
  out :: "out_item list"
  bodyRead :: nat
  panicked :: bool

definition newResponse :: response where
  "newResponse = \<lparr> code = 200, headers = Map.empty, out = [], bodyRead = 0, panicked = False \<rparr>"

definition Header_Set :: "string \<Rightarrow> string \<Rightarrow> response \<Rightarrow> response" where
  "Header_Set k v w = w\<lparr> headers := (headers w)(k \<mapsto> v) \<rparr>"

definition Write_out :: "string \<Rightarrow> response \<Rightarrow> response" where
  "Write_out b w = w\<lparr> out := out w @ [Data b] \<rparr>"

text \<open>\<^verbatim>\<open>http.Error\<close>: plain text, the given code, the message and a newline.\<close>

definition http_Error :: "string \<Rightarrow> nat \<Rightarrow> response \<Rightarrow> response" where
  "http_Error msg c w =
     Write_out (msg @ [CHR 0x0A])
       ((Header_Set ''X-Content-Type-Options'' ''nosniff''
          (Header_Set ''Content-Type'' ''text/plain; charset=utf-8'' w))\<lparr> code := c \<rparr>)"

subsection \<open>Numbers and their text\<close>

definition int64 :: "int \<Rightarrow> int" where
  "int64 x = (x + 2 ^ 63) mod 2 ^ 64 - 2 ^ 63"

fun itoa_nat :: "nat \<Rightarrow> string" where
  "itoa_nat n =
     (if n < 10 then [''0123456789'' ! n]
      else itoa_nat (n div 10) @ [''0123456789'' ! (n mod 10)])"

declare itoa_nat.simps [simp del]

text \<open>The verb \<^verbatim>\<open>%d\<close>.\<close>

definition itoa :: "int \<Rightarrow> string" where
  "itoa i = (if i < 0 then ''-'' @ itoa_nat (nat (- i)) else itoa_nat (nat i))"

text \<open>
  The verb \<^verbatim>\<open>%.2f\<close> applied to \<^verbatim>\<open>float64(size)/float64(unit)\<close> for a unit that is a
  power of two: the quotient in hundredths, rounded to nearest, ties to even. This is
  what the source prints for sizes below \<open>2 ^ 53\<close>, where the conversion to
  \<^verbatim>\<open>float64\<close> is exact.
\<close>

definition fmt_2f :: "int \<Rightarrow> int \<Rightarrow> string" where
  "fmt_2f sz unit =
     (let a = sz * 100; fl = a div unit; rm = a mod unit;
          r = (if 2 * rm > unit then fl + 1
               else if 2 * rm < unit then fl
               else if even fl then fl else fl + 1)
      in itoa (r div 100) @ ''.'' @ digit2 (nat (r mod 100)))"

definition formatSize :: "int \<Rightarrow> string" where
  "formatSize sz =
     (let KB = 1024; MB = 1024 * KB; GB = 1024 * MB
      in if sz \<ge> GB then fmt_2f sz GB @ '' GB''
         else if sz \<ge> MB then fmt_2f sz MB @ '' MB''
         else if sz \<ge> KB then fmt_2f sz KB @ '' KB''
         else itoa sz @ '' B'')"

subsection \<open>Status updates shared by the transfer paths\<close>

text \<open>
  The block that each chunk step of the source repeats: store the running count,
  recompute the progress when the size is known, stamp the time, broadcast.
\<close>

definition setProgress :: "nat \<Rightarrow> int \<Rightarrow> FileServer \<Rightarrow> FileServer" where
  "setProgress now t fs =
     broadcastStatus
       (fs\<lparr> status := (status fs)
              \<lparr> Transferred := t,
                Progress := (if Size (status fs) > 0
                             then real_of_int t / real_of_int (Size (status fs)) * 100
                             else Progress (status fs)),
                LastUpdateTime := now \<rparr> \<rparr>)"

text \<open>The block of every error branch: phase \<^verbatim>\<open>error\<close>, the message, broadcast.\<close>

definition setError :: "string \<Rightarrow> FileServer \<Rightarrow> FileServer" where
  "setError e fs =
     broadcastStatus (fs\<lparr> status := (status fs)\<lparr> Status := ''error'', Error := e \<rparr> \<rparr>)"

definition setTransferring :: "string \<Rightarrow> int \<Rightarrow> FileServer \<Rightarrow> FileServer" where
  "setTransferring clientIP sz fs =
     broadcastStatus
       (fs\<lparr> status := (status fs)
              \<lparr> Status := ''transferring'', ClientIP := clientIP, Size := sz \<rparr> \<rparr>)"

definition setCompleted :: "FileServer \<Rightarrow> FileServer" where
  "setCompleted fs =
     broadcastStatus (fs\<lparr> status := (status fs)\<lparr> Status := ''completed'', Progress := 100 \<rparr> \<rparr>)"

subsection \<open>Cancel\<close>

definition handleCancel :: "nat \<Rightarrow> request \<Rightarrow> FileServer \<Rightarrow> response \<times> FileServer" where
  \<open>handleCancel now r fs =
     (if Method r \<noteq> ''POST''
      then (http_Error ''Method not allowed'' 405 newResponse, fs)
      else let clientIP = getClientIP r;
               fs1 = releaseClient now clientIP fs;
               fs2 = broadcastStatus (fs1\<lparr> status := (status fs1)\<lparr> Status := ''cancelled'' \<rparr> \<rparr>);
               fs3 = addLog now (''Transfer cancelled by '' @ clientIP) fs2
           in (Write_out ''{"status":"cancelled"}''
                 (Header_Set ''Content-Type'' ''application/json'' newResponse), fs3))\<close>

subsection \<open>Upload\<close>

text \<open>
  The receive directory is a map from a path to the bytes stored there; \<^verbatim>\<open>os.Stat\<close>
  succeeds on a path exactly when the map has it.

  \<open>part_reads\<close> of the uploaded file is the sequence of results of the successive
  \<^verbatim>\<open>file.Read(buf)\<close> calls, each the bytes \<^verbatim>\<open>buf[:n]\<close> and the error; past its end
  every read returns no bytes and \<^verbatim>\<open>io.EOF\<close>, as a file does. \<open>up_writes\<close> is the
  sequence of results of the successive \<^verbatim>\<open>dst.Write\<close> calls, each the number of bytes
  that reached the file and the error; past its end every write is complete.
  \<open>up_parsed\<close> is the number of bytes of the request body that the form parser has
  read from the peer when it returns.
\<close>

type_synonym disk = "string \<rightharpoonup> string"

record upload_env =
  up_parsed :: nat
  up_createErr :: "string option"
  up_writes :: "(nat \<times> string option) list"

text \<open>\<^verbatim>\<open>dst.Write(buf[:n])\<close>; the source drops both of its results.\<close>

definition dst_Write ::
  "string \<Rightarrow> string \<Rightarrow> (nat \<times> string option) list \<Rightarrow> disk \<Rightarrow> disk \<times> (nat \<times> string option) list"
where
  "dst_Write savePath b ws d =
     (let k = (case ws of [] \<Rightarrow> length b | (k, e) # ws' \<Rightarrow> min k (length b));
          old = (case d savePath of None \<Rightarrow> [] | Some c \<Rightarrow> c)
      in (d(savePath \<mapsto> old @ take k b), tl ws))"

fun uploadLoop ::
  "nat \<Rightarrow> string \<Rightarrow> (string \<times> string option) list \<Rightarrow> (nat \<times> string option) list \<Rightarrow>
   int \<Rightarrow> FileServer \<Rightarrow> disk \<Rightarrow> int \<times> FileServer \<times> disk"
where
  "uploadLoop now savePath [] ws transferred fs d = (transferred, fs, d)"
| "uploadLoop now savePath ((b, err) # rs) ws transferred fs d =
     (if length b > 0
      then (let (d1, ws1) = dst_Write savePath b ws d;
                transferred1 = int64 (transferred + int (length b));
                fs1 = setProgress now transferred1 fs
            in if err \<noteq> None then (transferred1, fs1, d1)
               else uploadLoop now savePath rs ws1 transferred1 fs1 d1)
      else if err \<noteq> None then (transferred, fs, d)
      else uploadLoop now savePath rs ws transferred fs d)"

text \<open>
  \<^verbatim>\<open>r.ParseMultipartForm\<close> reads from the request body what the parser of the
  standard library reads of it; how much that is is a result of the environment.
  \<^verbatim>\<open>r.FormFile("file")\<close> then returns the first file stored under the key, or an
  error.
\<close>

definition ParseMultipartForm :: "upload_env \<Rightarrow> response \<Rightarrow> response" where
  "ParseMultipartForm env w = w\<lparr> bodyRead := up_parsed env \<rparr>"

definition FormFile :: "request \<Rightarrow> string \<Rightarrow> string + file_part" where
  "FormFile r key =
     (case multipart r of
        None \<Rightarrow> Inl ''request Content-Type isn't multipart/form-data''
      | Some ps \<Rightarrow>
          (case filter (\<lambda>p. part_key p = key) ps of
             [] \<Rightarrow> Inl ''http: no such file''
           | p # _ \<Rightarrow> Inr p))"

text \<open>
  \<open>Join\<close> stands for \<^verbatim>\<open>filepath.Join\<close>, of the standard library. The console line
  printed on success is not modelled.

  \<open>receiveFile\<close> is the handler from \<^verbatim>\<open>os.Create\<close> to its end, \<open>uploadAdmitted\<close>
  the handler from \<^verbatim>\<open>r.ParseMultipartForm\<close> on; the deferred \<^verbatim>\<open>releaseClient\<close> is
  applied by \<open>handleUpload\<close> to whatever they return.
\<close>

definition receiveFile ::
  "nat \<Rightarrow> upload_env \<Rightarrow> string \<Rightarrow> file_part \<Rightarrow> string \<Rightarrow> response \<Rightarrow> FileServer \<Rightarrow> disk \<Rightarrow>
   response \<times> FileServer \<times> disk"
where
  \<open>receiveFile now env clientIP header savePath w fs d =
     (case up_createErr env of
        Some e \<Rightarrow> (http_Error ''Failed to create file'' 500 w, setError e fs, d)
      | None \<Rightarrow>
          (let (transferred, fs1, d1) =
                 uploadLoop now savePath (part_reads header) (up_writes env) 0 fs
                   (d(savePath \<mapsto> []));
               fs2 = setCompleted fs1;
               fs3 = addLog now
                       (''Upload completed from '' @ clientIP @ '': '' @ part_Filename header
                          @ '' ('' @ formatSize transferred @ '')'') fs2
           in (Write_out
                 (''{"status":"success","path":"'' @ savePath
                    @ ''","size":'' @ itoa transferred @ ''}'')
                 (Header_Set ''Content-Type'' ''application/json'' w),
               fs3, d1)))\<close>

definition uploadAdmitted ::
  "(string \<Rightarrow> string \<Rightarrow> string) \<Rightarrow> nat \<Rightarrow> upload_env \<Rightarrow> request \<Rightarrow> string \<Rightarrow> FileServer \<Rightarrow>
   disk \<Rightarrow> response \<times> FileServer \<times> disk"
where
  \<open>uploadAdmitted Join now env r clientIP fs d =
     (let w = ParseMultipartForm env newResponse
      in case FormFile r ''file'' of
           Inl e \<Rightarrow> (http_Error ''Failed to get file'' 400 w, fs, d)
         | Inr header \<Rightarrow>
             (let savePath = Join (path fs) (part_Filename header)
              in if d savePath \<noteq> None
                 then (Write_out
                         (''{"error":"file_exists","message":"File '' @ [CHR 0x27]
                            @ part_Filename header @ [CHR 0x27]
                            @ '' already exists","path":"'' @ savePath @ ''"}'')
                         ((Header_Set ''Content-Type'' ''application/json'' w)\<lparr> code := 409 \<rparr>),
                       fs, d)
                 else
                   (let fs1 = setTransferring clientIP (part_Size header) fs;
                        fs2 = addLog now (''Started upload from '' @ clientIP @ '': ''
                                            @ part_Filename header) fs1
                    in receiveFile now env clientIP header savePath w fs2 d)))\<close>

definition handleUpload ::
  "(string \<Rightarrow> string \<Rightarrow> string) \<Rightarrow> nat \<Rightarrow> upload_env \<Rightarrow> request \<Rightarrow> FileServer \<times> disk \<Rightarrow>
   response \<times> FileServer \<times> disk"
where
  "handleUpload Join now env r sd =
     (let fs = fst sd; d = snd sd
      in if mode fs \<noteq> ''recv''
         then (http_Error ''Server is not in receive mode'' 400 newResponse, fs, d)
         else if Method r \<noteq> ''POST''
         then (http_Error ''Method not allowed'' 405 newResponse, fs, d)
         else
           (let clientIP = getClientIP r;
                (ok, fs0) = acquireClient clientIP fs
            in if \<not> ok
               then (http_Error ''Another client is already connected'' 503 newResponse, fs, d)
               else
                 (let (w, fs1, d1) = uploadAdmitted Join now env r clientIP fs0 d
                  in (w, releaseClient now clientIP fs1, d1))))"

subsection \<open>Download\<close>

text \<open>
  What a download learns from the operating system. \<open>dl_statErr\<close>, \<open>dl_IsDir\<close> and
  \<open>dl_Size\<close> are the result of \<^verbatim>\<open>os.Stat(fs.path)\<close>; \<open>dl_sizeWalk\<close> is what the walk
  of \<^verbatim>\<open>calculateDirSize\<close> visits (the error handed to the callback, whether the entry
  is a directory, its size); \<open>dl_walk\<close> is what the walk of the archive visits;
  \<open>dl_openErr\<close> is the result of opening the file; \<open>dl_reads\<close> is the sequence of
  results of the successive \<^verbatim>\<open>f.Read(buf)\<close> calls, as for an upload; \<open>dl_writeErrs\<close>
  is the sequence of errors of the successive \<^verbatim>\<open>w.Write\<close> calls, all \<open>None\<close> past
  its end. An error is its message, and \<^verbatim>\<open>io.EOF\<close> is the message \<^verbatim>\<open>EOF\<close>.

  An entry of the archive walk: the error handed to the callback, the path relative
  to the root, whether it is a directory, the error of \<^verbatim>\<open>zipWriter.CreateHeader\<close>
  (which then returns no writer), the error of \<^verbatim>\<open>os.Open\<close>, the length of the file,
  and the two results of \<^verbatim>\<open>io.Copy\<close>. A walk stops at the first callback that returns
  an error.
\<close>

record walk_entry =
  we_err :: "string option"
  we_rel :: string
  we_IsDir :: bool
  we_headerErr :: "string option"
  we_openErr :: "string option"
  we_len :: int
  we_copied :: int
  we_copyErr :: "string option"

record download_env =
  dl_statErr :: "string option"
  dl_IsDir :: bool
  dl_Size :: int
  dl_sizeWalk :: "(string option \<times> bool \<times> int) list"
  dl_walk :: "walk_entry list"
  dl_openErr :: "string option"
  dl_reads :: "(string \<times> string option) list"
  dl_writeErrs :: "string option list"

fun sizeWalk :: "(string option \<times> bool \<times> int) list \<Rightarrow> int \<Rightarrow> int \<times> string option" where
  "sizeWalk [] sz = (sz, None)"
| "sizeWalk ((err, isDir, n) # es) sz =
     (if err \<noteq> None then (sz, err)
      else sizeWalk es (if \<not> isDir then int64 (sz + n) else sz))"

definition calculateDirSize :: "(string option \<times> bool \<times> int) list \<Rightarrow> int \<times> string option" where
  "calculateDirSize es = sizeWalk es 0"

datatype walk_result = WalkNil | WalkErr string | WalkPanic

text \<open>
  The callback of the archive walk, entry by entry. \<^verbatim>\<open>io.Copy\<close> into the missing
  writer of a failed \<^verbatim>\<open>CreateHeader\<close> panics at its first write, that is when the
  file has any bytes. The error of \<^verbatim>\<open>io.Copy\<close> is dropped by the source.
\<close>

fun walkDir ::
  "nat \<Rightarrow> walk_entry list \<Rightarrow> int \<Rightarrow> FileServer \<Rightarrow> response \<Rightarrow> walk_result \<times> FileServer \<times> response"
where
  "walkDir now [] transferred fs w = (WalkNil, fs, w)"
| "walkDir now (e # es) transferred fs w =
     (case we_err e of
        Some x \<Rightarrow> (WalkErr x, fs, w)
      | None \<Rightarrow>
          (if we_rel e = ''.'' then walkDir now es transferred fs w
           else
             (let name = we_rel e @ (if we_IsDir e then ''/'' else []);
                  w1 = (if we_headerErr e = None then w\<lparr> out := out w @ [ZipHeader name] \<rparr> else w)
              in if we_IsDir e then walkDir now es transferred fs w1
                 else
                   (case we_openErr e of
                      Some x \<Rightarrow> (WalkErr x, fs, w1)
                    | None \<Rightarrow>
                        (if we_headerErr e \<noteq> None \<and> we_len e > 0 then (WalkPanic, fs, w1)
                         else
                           (let n = (if we_headerErr e \<noteq> None then 0 else we_copied e);
                                w2 = (if we_headerErr e = None
                                      then w1\<lparr> out := out w1 @ [ZipData n] \<rparr> else w1);
                                transferred1 = int64 (transferred + n)
                            in walkDir now es transferred1
                                 (setProgress now transferred1 fs) w2))))))"

text \<open>
  The chunk loop of a file download. The first component of the result tells whether
  the loop ended by \<^verbatim>\<open>break\<close> (on \<^verbatim>\<open>io.EOF\<close>) rather than by \<^verbatim>\<open>return\<close>.
\<close>

fun downloadLoop ::
  "nat \<Rightarrow> (string \<times> string option) list \<Rightarrow> string option list \<Rightarrow> int \<Rightarrow> FileServer \<Rightarrow>
   response \<Rightarrow> bool \<times> FileServer \<times> response"
where
  "downloadLoop now [] ws transferred fs w = (True, fs, w)"
| "downloadLoop now ((b, err) # rs) ws transferred fs w =
     (if length b > 0
      then (case (case ws of [] \<Rightarrow> None | writeErr # ws' \<Rightarrow> writeErr) of
              Some x \<Rightarrow> (False, setError x fs, w)
            | None \<Rightarrow>
                (let transferred1 = int64 (transferred + int (length b));
                     fs1 = setProgress now transferred1 fs;
                     w1 = Write_out b w
                 in if err = Some ''EOF'' then (True, fs1, w1)
                    else (case err of
                            Some x \<Rightarrow> (False, setError x fs1, w1)
                          | None \<Rightarrow> downloadLoop now rs (tl ws) transferred1 fs1 w1)))
      else if err = Some ''EOF'' then (True, fs, w)
      else (case err of
              Some x \<Rightarrow> (False, setError x fs, w)
            | None \<Rightarrow> downloadLoop now rs ws transferred fs w))"

text \<open>The common end of a download that was not cut short by \<^verbatim>\<open>return\<close>.\<close>

definition downloadCompleted :: "nat \<Rightarrow> string \<Rightarrow> FileServer \<Rightarrow> FileServer" where
  "downloadCompleted now clientIP fs =
     addLog now (''Download completed for '' @ clientIP) (setCompleted fs)"

definition downloadDir ::
  "nat \<Rightarrow> download_env \<Rightarrow> string \<Rightarrow> FileServer \<Rightarrow> response \<times> FileServer"
where
  \<open>downloadDir now env clientIP fs =
     (let w = Header_Set ''Content-Disposition''
                (''attachment; filename="'' @ filepath_Base (path fs) @ ''.zip"'')
                (Header_Set ''Content-Type'' ''application/zip'' newResponse);
          (res, fs1, w1) = walkDir now (dl_walk env) 0 fs w
      in if res = WalkPanic
         then (w1\<lparr> out := out w1 @ [ZipClose], panicked := True \<rparr>, fs1)
         else (w1\<lparr> out := out w1 @ [ZipClose] \<rparr>, downloadCompleted now clientIP fs1))\<close>

definition downloadFile ::
  "nat \<Rightarrow> download_env \<Rightarrow> request \<Rightarrow> string \<Rightarrow> FileServer \<Rightarrow> response \<times> FileServer"
where
  \<open>downloadFile now env r clientIP fs =
     (let w = Header_Set ''Content-Length'' (itoa (dl_Size env))
                (Header_Set ''Content-Disposition''
                   (''attachment; filename="'' @ filepath_Base (path fs) @ ''"'')
                   (Header_Set ''Content-Type'' ''application/octet-stream'' newResponse))
      in if Header_Range r \<noteq> []
         then (case dl_openErr env of
                 Some x \<Rightarrow> (w\<lparr> panicked := True \<rparr>, fs)
               | None \<Rightarrow> (w\<lparr> out := out w @ [Served] \<rparr>, downloadCompleted now clientIP fs))
         else (case dl_openErr env of
                 Some x \<Rightarrow> (http_Error ''Failed to open file'' 500 w, fs)
               | None \<Rightarrow>
                   (let (finished, fs1, w1) =
                          downloadLoop now (dl_reads env) (dl_writeErrs env) 0 fs w
                    in if finished then (w1, downloadCompleted now clientIP fs1)
                       else (w1, fs1))))\<close>

definition downloadAdmitted ::
  "nat \<Rightarrow> download_env \<Rightarrow> request \<Rightarrow> string \<Rightarrow> FileServer \<Rightarrow> response \<times> FileServer"
where
  "downloadAdmitted now env r clientIP fs =
     (let fs1 = addLog now (''Client '' @ clientIP @ '' connected'') fs
      in if dl_statErr env \<noteq> None
         then (http_Error ''File not found'' 404 newResponse, fs1)
         else
           (let sz = (if dl_IsDir env then fst (calculateDirSize (dl_sizeWalk env))
                      else dl_Size env);
                fs2 = setTransferring clientIP sz fs1;
                fs3 = addLog now (''Started download from '' @ clientIP) fs2
            in if dl_IsDir env then downloadDir now env clientIP fs3
               else downloadFile now env r clientIP fs3))"

definition handleDownload ::
  "nat \<Rightarrow> download_env \<Rightarrow> request \<Rightarrow> FileServer \<Rightarrow> response \<times> FileServer"
where
  "handleDownload now env r fs =
     (if mode fs \<noteq> ''send''
      then (http_Error ''Server is not in send mode'' 400 newResponse, fs)
      else
        (let clientIP = getClientIP r;
             (ok, fs0) = acquireClient clientIP fs
         in if \<not> ok
            then (http_Error ''Another client is already connected'' 503 newResponse, fs)
            else
              (let (w, fs1) = downloadAdmitted now env r clientIP fs0
               in (w, releaseClient now clientIP fs1))))"

subsection \<open>Sessions\<close>

text \<open>
  A session is the server made by \<^verbatim>\<open>NewFileServer\<close> followed by requests, served
  one after the other. The handlers that only read (\<^verbatim>\<open>/api/info\<close>, \<^verbatim>\<open>/api/log\<close>,
  \<^verbatim>\<open>/\<close>) leave the state as it is and are left out.
\<close>

datatype op =
    Download nat download_env request
  | Upload nat upload_env request
  | Cancel nat request








section \<open>Properties\<close>

subsection \<open>What each operation does to each field\<close>

text \<open>
  The effect of the status and log operations, field by field; with these rules a
  handler is evaluated without unfolding the whole server record.
\<close>

lemma broadcastStatus_sel [simp]:
  "status (broadcastStatus fs) = status fs"
  "activeClient (broadcastStatus fs) = activeClient fs"
  "transferLog (broadcastStatus fs) = transferLog fs"
  "mode (broadcastStatus fs) = mode fs"
  "path (broadcastStatus fs) = path fs"
  by (simp_all add: broadcastStatus_def)

lemma addLog_sel [simp]:
  "status (addLog now m fs) = status fs"
  "activeClient (addLog now m fs) = activeClient fs"
  "mode (addLog now m fs) = mode fs"
  "path (addLog now m fs) = path fs"
  "sent (addLog now m fs) =
     sent fs @ [\<lparr> snap_status = Status (status fs), snap_progress = Progress (status fs),
                  snap_transferred = Transferred (status fs),
                  snap_client_ip = activeClient fs, snap_error = Error (status fs) \<rparr>]"
  by (simp_all add: addLog_def Let_def broadcastStatus_def)

lemma releaseClient_sel [simp]:
  "status (releaseClient now c fs) = status fs"
  "mode (releaseClient now c fs) = mode fs"
  "path (releaseClient now c fs) = path fs"
  "activeClient (releaseClient now c fs) = (if activeClient fs = c then [] else activeClient fs)"
  "transferLog (releaseClient now c fs) =
     (if activeClient fs = c then transferLog (addLog now (''Client '' @ c @ '' disconnected'') fs)
      else transferLog fs)"
  by (simp_all add: releaseClient_def addLog_def Let_def)

lemma setProgress_sel [simp]:
  "activeClient (setProgress now t fs) = activeClient fs"
  "mode (setProgress now t fs) = mode fs"
  "path (setProgress now t fs) = path fs"
  "Transferred (status (setProgress now t fs)) = t"
  "Status (status (setProgress now t fs)) = Status (status fs)"
  "Error (status (setProgress now t fs)) = Error (status fs)"
  "Size (status (setProgress now t fs)) = Size (status fs)"
  "ClientIP (status (setProgress now t fs)) = ClientIP (status fs)"
  "LastUpdateTime (status (setProgress now t fs)) = now"
  "Progress (status (setProgress now t fs)) =
     (if Size (status fs) > 0 then real_of_int t / real_of_int (Size (status fs)) * 100
      else Progress (status fs))"
  by (simp_all add: setProgress_def)

lemma setError_sel [simp]:
  "activeClient (setError e fs) = activeClient fs"
  "mode (setError e fs) = mode fs"
  "path (setError e fs) = path fs"
  "Transferred (status (setError e fs)) = Transferred (status fs)"
  "Status (status (setError e fs)) = ''error''"
  "Error (status (setError e fs)) = e"
  "Size (status (setError e fs)) = Size (status fs)"
  "Progress (status (setError e fs)) = Progress (status fs)"
  "LastUpdateTime (status (setError e fs)) = LastUpdateTime (status fs)"
  "ClientIP (status (setError e fs)) = ClientIP (status fs)"
  by (simp_all add: setError_def)

lemma setTransferring_sel [simp]:
  "activeClient (setTransferring c sz fs) = activeClient fs"
  "mode (setTransferring c sz fs) = mode fs"
  "path (setTransferring c sz fs) = path fs"
  "Transferred (status (setTransferring c sz fs)) = Transferred (status fs)"
  "Status (status (setTransferring c sz fs)) = ''transferring''"
  "Error (status (setTransferring c sz fs)) = Error (status fs)"
  "Size (status (setTransferring c sz fs)) = sz"
  "Progress (status (setTransferring c sz fs)) = Progress (status fs)"
  "LastUpdateTime (status (setTransferring c sz fs)) = LastUpdateTime (status fs)"
  "ClientIP (status (setTransferring c sz fs)) = c"
  by (simp_all add: setTransferring_def)

lemma setCompleted_sel [simp]:
  "activeClient (setCompleted fs) = activeClient fs"
  "mode (setCompleted fs) = mode fs"
  "path (setCompleted fs) = path fs"
  "Transferred (status (setCompleted fs)) = Transferred (status fs)"
  "Status (status (setCompleted fs)) = ''completed''"
  "Error (status (setCompleted fs)) = Error (status fs)"
  "Size (status (setCompleted fs)) = Size (status fs)"
  "Progress (status (setCompleted fs)) = 100"
  "LastUpdateTime (status (setCompleted fs)) = LastUpdateTime (status fs)"
  "ClientIP (status (setCompleted fs)) = ClientIP (status fs)"
  by (simp_all add: setCompleted_def)

lemma NewFileServer_sel [simp]:
  "activeClient (NewFileServer now m p prt ae) = []"
  "mode (NewFileServer now m p prt ae) = m"
  "path (NewFileServer now m p prt ae) = p"
  "transferLog (NewFileServer now m p prt ae) = []"
  "sent (NewFileServer now m p prt ae) = []"
  "Status (status (NewFileServer now m p prt ae)) = ''waiting''"
  "Error (status (NewFileServer now m p prt ae)) = []"
  "Transferred (status (NewFileServer now m p prt ae)) = 0"
  "Progress (status (NewFileServer now m p prt ae)) = 0"
  "Size (status (NewFileServer now m p prt ae)) = 0"
  by (simp_all add: NewFileServer_def)

lemmas eval_defs =
  handleUpload_def uploadAdmitted_def receiveFile_def handleDownload_def downloadAdmitted_def
  downloadFile_def downloadDir_def downloadCompleted_def handleCancel_def
  ParseMultipartForm_def FormFile_def dst_Write_def calculateDirSize_def
  acquireClient_def getClientIP_def Trim_def TrimLeft_def TrimRight_def
  http_Error_def Write_out_def Header_Set_def newResponse_def
  int64_def Let_def

subsection \<open>The admission slot\<close>

text \<open>
  C1. \<^verbatim>\<open>acquireClient\<close>: with no holder it returns true and records the peer; with the
  peer itself as holder it returns true and changes nothing; with another holder it
  returns false and changes nothing. The rejected request is answered at once: the
  download and upload handlers return 503 and leave the server (and the disk) as they
  were, and nothing is queued.
\<close>

theorem acquireClient_gate:
  "(activeClient fs = [] \<longrightarrow> acquireClient p fs = (True, fs\<lparr> activeClient := p \<rparr>))
 \<and> (activeClient fs = p \<longrightarrow> acquireClient p fs = (True, fs))
 \<and> (activeClient fs \<noteq> [] \<and> activeClient fs \<noteq> p \<longrightarrow> acquireClient p fs = (False, fs))
 \<and> (activeClient fs \<noteq> [] \<and> activeClient fs \<noteq> getClientIP r \<and> mode fs = ''send'' \<longrightarrow>
        code (fst (handleDownload now env r fs)) = 503 \<and> snd (handleDownload now env r fs) = fs)
 \<and> (activeClient fs \<noteq> [] \<and> activeClient fs \<noteq> getClientIP r \<and> mode fs = ''recv''
        \<and> Method r = ''POST'' \<longrightarrow>
        code (fst (handleUpload Join now uenv r (fs, d))) = 503
        \<and> snd (handleUpload Join now uenv r (fs, d)) = (fs, d))"
  by (auto simp: acquireClient_def handleDownload_def handleUpload_def http_Error_def
        Write_out_def Header_Set_def newResponse_def)

theorem acquireClient_gate_witness:
  "activeClient (NewFileServer 0 ''send'' ''/tmp'' 8080 False) = []
 \<and> acquireClient ''192.168.1.1'' (NewFileServer 0 ''send'' ''/tmp'' 8080 False)
     = (True, (NewFileServer 0 ''send'' ''/tmp'' 8080 False)\<lparr> activeClient := ''192.168.1.1'' \<rparr>)
 \<and> acquireClient ''192.168.1.1''
       ((NewFileServer 0 ''send'' ''/tmp'' 8080 False)\<lparr> activeClient := ''192.168.1.1'' \<rparr>)
     = (True, (NewFileServer 0 ''send'' ''/tmp'' 8080 False)\<lparr> activeClient := ''192.168.1.1'' \<rparr>)
 \<and> acquireClient ''192.168.1.2''
       ((NewFileServer 0 ''send'' ''/tmp'' 8080 False)\<lparr> activeClient := ''192.168.1.1'' \<rparr>)
     = (False, (NewFileServer 0 ''send'' ''/tmp'' 8080 False)\<lparr> activeClient := ''192.168.1.1'' \<rparr>)
 \<and> getClientIP \<lparr> Method = ''POST'', RemoteAddr = ''192.168.1.2:40000'', Header_Range = [],
                  BodyLength = 0, multipart = None \<rparr> = ''192.168.1.2''
 \<and> code (fst (handleDownload 0
        \<lparr> dl_statErr = None, dl_IsDir = False, dl_Size = 3, dl_sizeWalk = [], dl_walk = [],
          dl_openErr = None, dl_reads = [(''abc'', None)], dl_writeErrs = [] \<rparr>
        \<lparr> Method = ''POST'', RemoteAddr = ''192.168.1.2:40000'', Header_Range = [],
          BodyLength = 0, multipart = None \<rparr>
        ((NewFileServer 0 ''send'' ''/tmp'' 8080 False)\<lparr> activeClient := ''192.168.1.1'' \<rparr>))) = 503
 \<and> snd (handleUpload (\<lambda>dir name. dir @ ''/'' @ name) 0
        \<lparr> up_parsed = 0, up_createErr = None, up_writes = [] \<rparr>
        \<lparr> Method = ''POST'', RemoteAddr = ''192.168.1.2:40000'', Header_Range = [],
          BodyLength = 0, multipart = None \<rparr>
        ((NewFileServer 0 ''recv'' ''/tmp'' 8080 False)\<lparr> activeClient := ''192.168.1.1'' \<rparr>, Map.empty))
     = ((NewFileServer 0 ''recv'' ''/tmp'' 8080 False)\<lparr> activeClient := ''192.168.1.1'' \<rparr>, Map.empty)"
  using acquireClient_gate
          [where fs = "NewFileServer 0 ''send'' ''/tmp'' 8080 False" and p = "''192.168.1.1''"]
        acquireClient_gate
          [where fs = "(NewFileServer 0 ''send'' ''/tmp'' 8080 False)
                         \<lparr> activeClient := ''192.168.1.1'' \<rparr>"
             and p = "''192.168.1.1''"]
        acquireClient_gate
          [where fs = "(NewFileServer 0 ''send'' ''/tmp'' 8080 False)
                         \<lparr> activeClient := ''192.168.1.1'' \<rparr>"
             and p = "''192.168.1.2''" and now = 0
             and env = "\<lparr> dl_statErr = None, dl_IsDir = False, dl_Size = 3, dl_sizeWalk = [], dl_walk = [],
          dl_openErr = None, dl_reads = [(''abc'', None)], dl_writeErrs = [] \<rparr>"
             and r = "\<lparr> Method = ''POST'', RemoteAddr = ''192.168.1.2:40000'', Header_Range = [],
                         BodyLength = 0, multipart = None \<rparr>"]
        acquireClient_gate
          [where fs = "(NewFileServer 0 ''recv'' ''/tmp'' 8080 False)
                         \<lparr> activeClient := ''192.168.1.1'' \<rparr>"
             and now = 0 and uenv = "\<lparr> up_parsed = 0, up_createErr = None, up_writes = [] \<rparr>"
             and Join = "(\<lambda>dir name. dir @ ''/'' @ name)" and d = Map.empty
             and r = "\<lparr> Method = ''POST'', RemoteAddr = ''192.168.1.2:40000'', Header_Range = [],
                         BodyLength = 0, multipart = None \<rparr>"]
  by (simp add: NewFileServer_def getClientIP_def Trim_def TrimLeft_def TrimRight_def)

subsection \<open>The transfer log\<close>

lemma transferLog_addLog:
  "transferLog (addLog now m fs) =
     drop (length (transferLog fs) + 1 - 100) (transferLog fs @ [logEntry now m])"
  by (simp add: addLog_def Let_def)

lemma transferLog_addLogs:
  "transferLog (addLogs ms fs) =
     drop (length (transferLog fs) + length ms - 100)
       (transferLog fs @ map (\<lambda>(t, m). logEntry t m) ms)" if "length (transferLog fs) \<le> 100"
  using that
proof (induction ms arbitrary: fs)
  case Nil
  then show ?case by simp
next
  case (Cons a ms)
  obtain t m where a: "a = (t, m)" by (cases a)
  let ?fs1 = "addLog t m fs"
  have len1: "length (transferLog ?fs1) = min 100 (length (transferLog fs) + 1)"
    using Cons.prems by (auto simp: transferLog_addLog)
  then have le: "length (transferLog ?fs1) \<le> 100" by simp
  have "transferLog (addLogs (a # ms) fs) = transferLog (addLogs ms ?fs1)"
    by (simp add: a)
  also have "\<dots> = drop (length (transferLog ?fs1) + length ms - 100)
                     (transferLog ?fs1 @ map (\<lambda>(t, m). logEntry t m) ms)"
    by (rule Cons.IH [OF le])
  also have "\<dots> = drop (length (transferLog fs) + length (a # ms) - 100)
                     (transferLog fs @ map (\<lambda>(t, m). logEntry t m) (a # ms))"
  proof (cases "length (transferLog fs) < 100")
    case True
    then show ?thesis by (simp add: transferLog_addLog a)
  next
    case False
    with Cons.prems have eq: "length (transferLog fs) = 100" by simp
    then obtain x xs where xs: "transferLog fs = x # xs" by (cases "transferLog fs") auto
    with eq have lx: "length xs = 99" by simp
    have t1: "transferLog ?fs1 = xs @ [logEntry t m]"
      by (simp add: transferLog_addLog xs lx)
    show ?thesis
      by (simp add: t1 xs lx a Suc_diff_le)
  qed
  finally show ?case .
qed

text \<open>
  C6. After every \<^verbatim>\<open>addLog\<close> the log has at most 100 entries and the new entry is its
  last. Below the bound the entry is appended; at the bound the oldest entry is dropped
  and the others keep their order. From the empty log of a new server, any run of
  appends leaves the last 100 entries in order; after 101 appends these are entries 2
  to 101.
\<close>

theorem addLog_bounded_fifo:
  "length (transferLog (addLog now m fs)) \<le> 100
 \<and> last (transferLog (addLog now m fs)) = logEntry now m
 \<and> (length (transferLog fs) < 100 \<longrightarrow>
       transferLog (addLog now m fs) = transferLog fs @ [logEntry now m])
 \<and> (length (transferLog fs) = 100 \<longrightarrow>
       transferLog (addLog now m fs) = tl (transferLog fs) @ [logEntry now m])
 \<and> transferLog (addLogs ms (NewFileServer now0 md p prt ae))
       = drop (length ms - 100) (map (\<lambda>(t, m). logEntry t m) ms)
 \<and> (length ms = 101 \<longrightarrow>
       transferLog (addLogs ms (NewFileServer now0 md p prt ae))
         = tl (map (\<lambda>(t, m). logEntry t m) ms))"
proof (intro conjI impI)
  show "length (transferLog (addLog now m fs)) \<le> 100"
    by (simp add: transferLog_addLog)
  show "last (transferLog (addLog now m fs)) = logEntry now m"
    by (simp add: transferLog_addLog)
  show "transferLog (addLog now m fs) = transferLog fs @ [logEntry now m]"
    if "length (transferLog fs) < 100"
    using that by (simp add: transferLog_addLog)
  show "transferLog (addLog now m fs) = tl (transferLog fs) @ [logEntry now m]"
    if "length (transferLog fs) = 100"
    using that by (cases "transferLog fs") (simp_all add: transferLog_addLog)
  have e: "transferLog (NewFileServer now0 md p prt ae) = []"
    by (simp add: NewFileServer_def)
  show g: "transferLog (addLogs ms (NewFileServer now0 md p prt ae))
       = drop (length ms - 100) (map (\<lambda>(t, m). logEntry t m) ms)"
    using transferLog_addLogs [of "NewFileServer now0 md p prt ae" ms] by (simp add: e)
  show "transferLog (addLogs ms (NewFileServer now0 md p prt ae))
         = tl (map (\<lambda>(t, m). logEntry t m) ms)" if "length ms = 101"
    using that g by (simp add: drop_Suc)
qed

theorem addLog_bounded_fifo_witness:
  "length (transferLog ((NewFileServer 0 ''send'' ''/tmp'' 8080 False)\<lparr> transferLog := [''a'', ''b''] \<rparr>)) < 100
 \<and> transferLog (addLog 3723 ''hello'' ((NewFileServer 0 ''send'' ''/tmp'' 8080 False)\<lparr> transferLog := [''a'', ''b''] \<rparr>))
     = [''a'', ''b'', ''[01:02:03] hello'']
 \<and> length (transferLog ((NewFileServer 0 ''send'' ''/tmp'' 8080 False)\<lparr> transferLog := ''first'' # replicate 99 ''x'' \<rparr>)) = 100
 \<and> transferLog (addLog 3723 ''hello'' ((NewFileServer 0 ''send'' ''/tmp'' 8080 False)\<lparr> transferLog := ''first'' # replicate 99 ''x'' \<rparr>))
     = replicate 99 ''x'' @ [''[01:02:03] hello'']
 \<and> length (map (\<lambda>i. (i, ''m'')) [0..<101]) = 101
 \<and> transferLog (addLogs (map (\<lambda>i. (i, ''m'')) [0..<101]) (NewFileServer 0 ''send'' ''/tmp'' 8080 False))
     = map (\<lambda>i. logEntry i ''m'') [1..<101]"
  using addLog_bounded_fifo [of 3723 "''hello''" "(NewFileServer 0 ''send'' ''/tmp'' 8080 False)\<lparr> transferLog := [''a'', ''b''] \<rparr>" "[]" 0 "''send''" "''/tmp''" 8080 False]
        addLog_bounded_fifo [of 3723 "''hello''" "(NewFileServer 0 ''send'' ''/tmp'' 8080 False)\<lparr> transferLog := ''first'' # replicate 99 ''x'' \<rparr>" "map (\<lambda>i. (i, ''m'')) [0..<101]" 0 "''send''" "''/tmp''" 8080 False]
  by (simp add: logEntry_def Format_150405_def digit2_def NewFileServer_def map_tl upt_conv_Cons [of 0 101] o_def)

subsection \<open>Peer identity\<close>

lemma LastIndex_none: "c \<notin> set s \<Longrightarrow> LastIndex s c = - 1"
  by (induction s) auto

lemma LastIndex_append_sep:
  "c \<notin> set p \<Longrightarrow> LastIndex (h @ c # p) c = int (length h)"
  by (induction h) (auto simp: Let_def LastIndex_none)

lemma getClientIP_host_port:
  "CHR '':'' \<notin> set prt \<Longrightarrow> getClientIP (r\<lparr> RemoteAddr := host @ '':'' @ prt \<rparr>) = Trim host ''[]''"
  by (simp add: getClientIP_def LastIndex_append_sep Let_def)

lemma Trim_decomp:
  "\<exists>pre suf. s = pre @ Trim s cs @ suf \<and> set pre \<subseteq> set cs \<and> set suf \<subseteq> set cs"
proof -
  let ?P = "\<lambda>c. c \<in> set cs"
  let ?l = "dropWhile ?P s"
  have a: "s = takeWhile ?P s @ ?l" by simp
  have b: "?l = rev (dropWhile ?P (rev ?l)) @ rev (takeWhile ?P (rev ?l))"
    by (metis rev_append rev_rev_ident takeWhile_dropWhile_id)
  have c: "set (takeWhile ?P s) \<subseteq> set cs" by (auto dest: set_takeWhileD)
  have d: "set (rev (takeWhile ?P (rev ?l))) \<subseteq> set cs" by (auto dest: set_takeWhileD)
  have "s = takeWhile ?P s @ Trim s cs @ rev (takeWhile ?P (rev ?l))"
    unfolding Trim_def TrimLeft_def TrimRight_def using a b by metis
  with c d show ?thesis by blast
qed

lemma Trim_ends:
  "Trim s cs \<noteq> [] \<Longrightarrow> hd (Trim s cs) \<notin> set cs \<and> last (Trim s cs) \<notin> set cs"
proof -
  let ?P = "\<lambda>c. c \<in> set cs"
  assume ne: "Trim s cs \<noteq> []"
  let ?l = "dropWhile ?P s"
  have T: "Trim s cs = rev (dropWhile ?P (rev ?l))"
    by (simp add: Trim_def TrimLeft_def TrimRight_def)
  from ne T have ne2: "dropWhile ?P (rev ?l) \<noteq> []" by simp
  then have "\<not> ?P (hd (dropWhile ?P (rev ?l)))" by (rule hd_dropWhile)
  then have lastok: "last (Trim s cs) \<notin> set cs" using T ne2 by (simp add: last_rev)
  from ne2 have lne: "?l \<noteq> []" by (cases "?l = []") simp_all
  then have h: "\<not> ?P (hd ?l)" by (rule hd_dropWhile)
  have "Trim s cs = ?l \<or> (\<exists>suf. ?l = Trim s cs @ suf)"
    by (metis T rev_append rev_rev_ident takeWhile_dropWhile_id)
  then have "hd (Trim s cs) = hd ?l" using ne by (metis hd_append2)
  with h lastok show ?thesis by simp
qed

text \<open>
  C10. The peer identifier of a request from \<^verbatim>\<open>host:port\<close> is the host with the square
  brackets at its two ends removed (\<^verbatim>\<open>[::1]:12345\<close> gives \<^verbatim>\<open>::1\<close>); it does not depend
  on the port, so a second connection from the same host is admitted while the first
  holds the slot.
\<close>

theorem getClientIP_same_host:
  "(CHR '':'' \<notin> set prt \<longrightarrow>
      getClientIP (r\<lparr> RemoteAddr := host @ '':'' @ prt \<rparr>) = Trim host ''[]'')
 \<and> (\<exists>pre suf. host = pre @ Trim host ''[]'' @ suf
        \<and> set pre \<subseteq> {CHR ''['', CHR '']''} \<and> set suf \<subseteq> {CHR ''['', CHR '']''})
 \<and> (Trim host ''[]'' \<noteq> [] \<longrightarrow>
        hd (Trim host ''[]'') \<notin> {CHR ''['', CHR '']''}
        \<and> last (Trim host ''[]'') \<notin> {CHR ''['', CHR '']''})
 \<and> getClientIP (r\<lparr> RemoteAddr := ''[::1]:12345'' \<rparr>) = ''::1''
 \<and> (CHR '':'' \<notin> set prt \<and> CHR '':'' \<notin> set prt'
        \<and> fst (acquireClient (getClientIP (r\<lparr> RemoteAddr := host @ '':'' @ prt \<rparr>)) fs) \<longrightarrow>
      getClientIP (r'\<lparr> RemoteAddr := host @ '':'' @ prt' \<rparr>)
        = getClientIP (r\<lparr> RemoteAddr := host @ '':'' @ prt \<rparr>)
      \<and> acquireClient (getClientIP (r'\<lparr> RemoteAddr := host @ '':'' @ prt' \<rparr>))
            (snd (acquireClient (getClientIP (r\<lparr> RemoteAddr := host @ '':'' @ prt \<rparr>)) fs))
          = (True, snd (acquireClient (getClientIP (r\<lparr> RemoteAddr := host @ '':'' @ prt \<rparr>)) fs)))"
proof (intro conjI impI)
  show "getClientIP (r\<lparr> RemoteAddr := host @ '':'' @ prt \<rparr>) = Trim host ''[]''"
    if "CHR '':'' \<notin> set prt"
    using that by (rule getClientIP_host_port)
  show "\<exists>pre suf. host = pre @ Trim host ''[]'' @ suf
        \<and> set pre \<subseteq> {CHR ''['', CHR '']''} \<and> set suf \<subseteq> {CHR ''['', CHR '']''}"
    using Trim_decomp [of host "''[]''"] by simp
  show "hd (Trim host ''[]'') \<notin> {CHR ''['', CHR '']''}" if "Trim host ''[]'' \<noteq> []"
    using Trim_ends [OF that] by simp
  show "last (Trim host ''[]'') \<notin> {CHR ''['', CHR '']''}" if "Trim host ''[]'' \<noteq> []"
    using Trim_ends [OF that] by simp
  show "getClientIP (r\<lparr> RemoteAddr := ''[::1]:12345'' \<rparr>) = ''::1''"
    by (simp add: getClientIP_def Trim_def TrimLeft_def TrimRight_def)
next
  assume h: "CHR '':'' \<notin> set prt \<and> CHR '':'' \<notin> set prt'
        \<and> fst (acquireClient (getClientIP (r\<lparr> RemoteAddr := host @ '':'' @ prt \<rparr>)) fs)"
  then have a: "getClientIP (r\<lparr> RemoteAddr := host @ '':'' @ prt \<rparr>) = Trim host ''[]''"
    and b: "getClientIP (r'\<lparr> RemoteAddr := host @ '':'' @ prt' \<rparr>) = Trim host ''[]''"
    using getClientIP_host_port [where prt = prt and r = r and host = host]
          getClientIP_host_port [where prt = prt' and r = r' and host = host]
    by simp_all
  show "getClientIP (r'\<lparr> RemoteAddr := host @ '':'' @ prt' \<rparr>)
        = getClientIP (r\<lparr> RemoteAddr := host @ '':'' @ prt \<rparr>)"
    using a b by simp
  show "acquireClient (getClientIP (r'\<lparr> RemoteAddr := host @ '':'' @ prt' \<rparr>))
            (snd (acquireClient (getClientIP (r\<lparr> RemoteAddr := host @ '':'' @ prt \<rparr>)) fs))
          = (True, snd (acquireClient (getClientIP (r\<lparr> RemoteAddr := host @ '':'' @ prt \<rparr>)) fs))"
    using h a b by (auto simp: acquireClient_def split: if_splits)
qed

theorem getClientIP_same_host_witness:
  "CHR '':'' \<notin> set ''12345'' \<and> CHR '':'' \<notin> set ''54321''
 \<and> getClientIP \<lparr> Method = ''GET'', RemoteAddr = ''[::1]'' @ '':'' @ ''12345'', Header_Range = [],
                  BodyLength = 0, multipart = None \<rparr> = ''::1''
 \<and> Trim ''[::1]'' ''[]'' = ''::1''
 \<and> acquireClient
       (getClientIP \<lparr> Method = ''GET'', RemoteAddr = ''[::1]'' @ '':'' @ ''12345'', Header_Range = [],
                      BodyLength = 0, multipart = None \<rparr>)
       (NewFileServer 0 ''send'' ''/tmp'' 8080 False)
     = (True, (NewFileServer 0 ''send'' ''/tmp'' 8080 False)\<lparr> activeClient := ''::1'' \<rparr>)
 \<and> acquireClient
       (getClientIP \<lparr> Method = ''GET'', RemoteAddr = ''[::1]'' @ '':'' @ ''54321'', Header_Range = [],
                      BodyLength = 0, multipart = None \<rparr>)
       ((NewFileServer 0 ''send'' ''/tmp'' 8080 False)\<lparr> activeClient := ''::1'' \<rparr>)
     = (True, (NewFileServer 0 ''send'' ''/tmp'' 8080 False)\<lparr> activeClient := ''::1'' \<rparr>)"
  using getClientIP_same_host
    [where prt = "''12345''" and prt' = "''54321''" and host = "''[::1]''"
       and fs = "NewFileServer 0 ''send'' ''/tmp'' 8080 False"
       and r = "\<lparr> Method = ''GET'', RemoteAddr = [], Header_Range = [], BodyLength = 0,
                   multipart = None \<rparr>"
       and r' = "\<lparr> Method = ''GET'', RemoteAddr = [], Header_Range = [], BodyLength = 0,
                    multipart = None \<rparr>"]
  by (simp add: Trim_def TrimLeft_def TrimRight_def acquireClient_def NewFileServer_def)

subsection \<open>Cancel\<close>

text \<open>
  C5, as amended. Every POST to \<^verbatim>\<open>/api/cancel\<close> sets the phase to \<^verbatim>\<open>cancelled\<close> and
  answers 200 with the new phase; the slot is released when the caller is its holder
  and is left to its holder otherwise.
\<close>

theorem handleCancel_release_only_own:
  \<open>Method r = ''POST'' \<longrightarrow>
     Status (status (snd (handleCancel now r fs))) = ''cancelled''
   \<and> code (fst (handleCancel now r fs)) = 200
   \<and> out (fst (handleCancel now r fs)) = [Data ''{"status":"cancelled"}'']
   \<and> activeClient (snd (handleCancel now r fs))
        = (if activeClient fs = getClientIP r then [] else activeClient fs)\<close>
  by (simp add: handleCancel_def Let_def releaseClient_def addLog_def broadcastStatus_def
        Write_out_def Header_Set_def newResponse_def)

theorem handleCancel_release_only_own_witness:
  \<open>Method \<lparr> Method = ''POST'', RemoteAddr = ''10.0.0.1:5000'', Header_Range = [],
             BodyLength = 0, multipart = None \<rparr> = ''POST''
 \<and> Status (status (snd (handleCancel 0
        \<lparr> Method = ''POST'', RemoteAddr = ''10.0.0.1:5000'', Header_Range = [],
          BodyLength = 0, multipart = None \<rparr>
        ((NewFileServer 0 ''send'' ''/tmp/f'' 8080 False)\<lparr> activeClient := ''10.0.0.1'' \<rparr>))))
     = ''cancelled''
 \<and> code (fst (handleCancel 0
        \<lparr> Method = ''POST'', RemoteAddr = ''10.0.0.1:5000'', Header_Range = [],
          BodyLength = 0, multipart = None \<rparr>
        ((NewFileServer 0 ''send'' ''/tmp/f'' 8080 False)\<lparr> activeClient := ''10.0.0.1'' \<rparr>))) = 200
 \<and> activeClient (snd (handleCancel 0
        \<lparr> Method = ''POST'', RemoteAddr = ''10.0.0.1:5000'', Header_Range = [],
          BodyLength = 0, multipart = None \<rparr>
        ((NewFileServer 0 ''send'' ''/tmp/f'' 8080 False)\<lparr> activeClient := ''10.0.0.1'' \<rparr>))) = []\<close>
  using handleCancel_release_only_own
          [where now = 0
             and r = "\<lparr> Method = ''POST'', RemoteAddr = ''10.0.0.1:5000'', Header_Range = [],
                         BodyLength = 0, multipart = None \<rparr>"
             and fs = "(NewFileServer 0 ''send'' ''/tmp/f'' 8080 False)
                         \<lparr> activeClient := ''10.0.0.1'' \<rparr>"]
  by (simp add: NewFileServer_def getClientIP_def Trim_def TrimLeft_def TrimRight_def)

text \<open>
  C5 as stated fails: peer \<^verbatim>\<open>10.0.0.1\<close> holds the slot and \<^verbatim>\<open>10.0.0.2\<close> posts the
  cancel. The phase becomes \<^verbatim>\<open>cancelled\<close> and the answer is 200, but the slot still
  belongs to \<^verbatim>\<open>10.0.0.1\<close>.
\<close>

theorem handleCancel_other_peer_counterexample:
  \<open>Status (status (snd (handleCancel 0
        \<lparr> Method = ''POST'', RemoteAddr = ''10.0.0.2:5000'', Header_Range = [],
          BodyLength = 0, multipart = None \<rparr>
        ((NewFileServer 0 ''send'' ''/tmp/f'' 8080 False)\<lparr> activeClient := ''10.0.0.1'' \<rparr>))))
     = ''cancelled''
 \<and> code (fst (handleCancel 0
        \<lparr> Method = ''POST'', RemoteAddr = ''10.0.0.2:5000'', Header_Range = [],
          BodyLength = 0, multipart = None \<rparr>
        ((NewFileServer 0 ''send'' ''/tmp/f'' 8080 False)\<lparr> activeClient := ''10.0.0.1'' \<rparr>))) = 200
 \<and> activeClient (snd (handleCancel 0
        \<lparr> Method = ''POST'', RemoteAddr = ''10.0.0.2:5000'', Header_Range = [],
          BodyLength = 0, multipart = None \<rparr>
        ((NewFileServer 0 ''send'' ''/tmp/f'' 8080 False)\<lparr> activeClient := ''10.0.0.1'' \<rparr>)))
     = ''10.0.0.1''\<close>
  by (simp add: handleCancel_def Let_def releaseClient_def addLog_def broadcastStatus_def
        Write_out_def Header_Set_def newResponse_def NewFileServer_def getClientIP_def
        Trim_def TrimLeft_def TrimRight_def)


subsection \<open>Upload\<close>

lemma acquireClient_admit:
  "activeClient fs = [] \<or> activeClient fs = c \<Longrightarrow>
     acquireClient c fs = (True, fs\<lparr> activeClient := c \<rparr>)"
  by (auto simp: acquireClient_def)

text \<open>
  C4, as amended. An admitted upload (receive mode, POST, slot free or held by the
  caller, a file under the key \<^verbatim>\<open>file\<close>) whose destination path exists is answered with
  409 and the structured conflict body. The form parser has run by then: the bytes it
  consumed of the request body have been read from the peer. Nothing is copied: the
  receive directory is unchanged, so no file is created and the existing file keeps its
  bytes, and the transfer status is unchanged.
\<close>

theorem handleUpload_conflict:
  assumes "mode fs = ''recv''" and "Method r = ''POST''"
    and "activeClient fs = [] \<or> activeClient fs = getClientIP r"
    and "FormFile r ''file'' = Inr header"
    and "d (Join (path fs) (part_Filename header)) \<noteq> None"
  shows \<open>code (fst (handleUpload Join now env r (fs, d))) = 409
       \<and> out (fst (handleUpload Join now env r (fs, d)))
           = [Data (''{"error":"file_exists","message":"File '' @ [CHR 0x27]
                      @ part_Filename header @ [CHR 0x27] @ '' already exists","path":"''
                      @ Join (path fs) (part_Filename header) @ ''"}'')]
       \<and> bodyRead (fst (handleUpload Join now env r (fs, d))) = up_parsed env
       \<and> snd (snd (handleUpload Join now env r (fs, d))) = d
       \<and> status (fst (snd (handleUpload Join now env r (fs, d)))) = status fs\<close>
proof -
  have adm: \<open>uploadAdmitted Join now env r (getClientIP r) (fs\<lparr> activeClient := getClientIP r \<rparr>) d
        = (Write_out (''{"error":"file_exists","message":"File '' @ [CHR 0x27]
                      @ part_Filename header @ [CHR 0x27] @ '' already exists","path":"''
                      @ Join (path fs) (part_Filename header) @ ''"}'')
             ((Header_Set ''Content-Type'' ''application/json''
                 (ParseMultipartForm env newResponse))\<lparr> code := 409 \<rparr>),
           fs\<lparr> activeClient := getClientIP r \<rparr>, d)\<close>
    using assms(4,5) by (simp add: uploadAdmitted_def Let_def)
  show ?thesis
    using assms(1,2)
    by (simp add: handleUpload_def Let_def acquireClient_admit [OF assms(3)] adm
          ParseMultipartForm_def Write_out_def Header_Set_def newResponse_def)
qed

theorem handleUpload_conflict_witness:
  \<open>mode (NewFileServer 0 ''recv'' ''recv'' 8080 False) = ''recv''
 \<and> FormFile \<lparr> Method = ''POST'', RemoteAddr = ''10.0.0.5:4000'', Header_Range = [],
               BodyLength = 8200,
               multipart = Some [\<lparr> part_key = ''file'', part_Filename = ''a.txt'', part_Size = 5,
                                  part_reads = [(''hello'', None)] \<rparr>] \<rparr> ''file''
     = Inr \<lparr> part_key = ''file'', part_Filename = ''a.txt'', part_Size = 5,
             part_reads = [(''hello'', None)] \<rparr>
 \<and> [''recv/a.txt'' \<mapsto> ''existing''] ''recv/a.txt'' = Some ''existing''
 \<and> code (fst (handleUpload (\<lambda>dir name. dir @ ''/'' @ name) 0
        \<lparr> up_parsed = 4096, up_createErr = None, up_writes = [] \<rparr>
        \<lparr> Method = ''POST'', RemoteAddr = ''10.0.0.5:4000'', Header_Range = [], BodyLength = 8200,
          multipart = Some [\<lparr> part_key = ''file'', part_Filename = ''a.txt'', part_Size = 5,
                             part_reads = [(''hello'', None)] \<rparr>] \<rparr>
        (NewFileServer 0 ''recv'' ''recv'' 8080 False, [''recv/a.txt'' \<mapsto> ''existing'']))) = 409
 \<and> out (fst (handleUpload (\<lambda>dir name. dir @ ''/'' @ name) 0
        \<lparr> up_parsed = 4096, up_createErr = None, up_writes = [] \<rparr>
        \<lparr> Method = ''POST'', RemoteAddr = ''10.0.0.5:4000'', Header_Range = [], BodyLength = 8200,
          multipart = Some [\<lparr> part_key = ''file'', part_Filename = ''a.txt'', part_Size = 5,
                             part_reads = [(''hello'', None)] \<rparr>] \<rparr>
        (NewFileServer 0 ''recv'' ''recv'' 8080 False, [''recv/a.txt'' \<mapsto> ''existing''])))
     = [Data ''{"error":"file_exists","message":"File 'a.txt' already exists","path":"recv/a.txt"}'']
 \<and> snd (snd (handleUpload (\<lambda>dir name. dir @ ''/'' @ name) 0
        \<lparr> up_parsed = 4096, up_createErr = None, up_writes = [] \<rparr>
        \<lparr> Method = ''POST'', RemoteAddr = ''10.0.0.5:4000'', Header_Range = [], BodyLength = 8200,
          multipart = Some [\<lparr> part_key = ''file'', part_Filename = ''a.txt'', part_Size = 5,
                             part_reads = [(''hello'', None)] \<rparr>] \<rparr>
        (NewFileServer 0 ''recv'' ''recv'' 8080 False, [''recv/a.txt'' \<mapsto> ''existing''])))
     = [''recv/a.txt'' \<mapsto> ''existing'']
 \<and> status (fst (snd (handleUpload (\<lambda>dir name. dir @ ''/'' @ name) 0
        \<lparr> up_parsed = 4096, up_createErr = None, up_writes = [] \<rparr>
        \<lparr> Method = ''POST'', RemoteAddr = ''10.0.0.5:4000'', Header_Range = [], BodyLength = 8200,
          multipart = Some [\<lparr> part_key = ''file'', part_Filename = ''a.txt'', part_Size = 5,
                             part_reads = [(''hello'', None)] \<rparr>] \<rparr>
        (NewFileServer 0 ''recv'' ''recv'' 8080 False, [''recv/a.txt'' \<mapsto> ''existing'']))))
     = status (NewFileServer 0 ''recv'' ''recv'' 8080 False)\<close>
  using handleUpload_conflict
    [where fs = "NewFileServer 0 ''recv'' ''recv'' 8080 False"
       and r = "\<lparr> Method = ''POST'', RemoteAddr = ''10.0.0.5:4000'', Header_Range = [],
                   BodyLength = 8200,
                   multipart = Some [\<lparr> part_key = ''file'', part_Filename = ''a.txt'',
                                      part_Size = 5, part_reads = [(''hello'', None)] \<rparr>] \<rparr>"
       and header = "\<lparr> part_key = ''file'', part_Filename = ''a.txt'', part_Size = 5,
                        part_reads = [(''hello'', None)] \<rparr>"
       and d = "[''recv/a.txt'' \<mapsto> ''existing'']"
       and Join = "\<lambda>dir name. dir @ ''/'' @ name"
       and now = 0 and env = "\<lparr> up_parsed = 4096, up_createErr = None, up_writes = [] \<rparr>"]
  by (simp add: FormFile_def)

text \<open>
  C4 as stated fails where it says that no bytes of the payload are read: the handler
  parses the form before it looks at the destination, so the 409 comes after the parser
  has read 4096 bytes of this request body.
\<close>

theorem handleUpload_conflict_reads_body_counterexample:
  \<open>[''recv/a.txt'' \<mapsto> ''existing''] ''recv/a.txt'' = Some ''existing''
 \<and> code (fst (handleUpload (\<lambda>dir name. dir @ ''/'' @ name) 0
        \<lparr> up_parsed = 4096, up_createErr = None, up_writes = [] \<rparr>
        \<lparr> Method = ''POST'', RemoteAddr = ''10.0.0.5:4000'', Header_Range = [], BodyLength = 8200,
          multipart = Some [\<lparr> part_key = ''file'', part_Filename = ''a.txt'', part_Size = 5,
                             part_reads = [(''hello'', None)] \<rparr>] \<rparr>
        (NewFileServer 0 ''recv'' ''recv'' 8080 False, [''recv/a.txt'' \<mapsto> ''existing'']))) = 409
 \<and> bodyRead (fst (handleUpload (\<lambda>dir name. dir @ ''/'' @ name) 0
        \<lparr> up_parsed = 4096, up_createErr = None, up_writes = [] \<rparr>
        \<lparr> Method = ''POST'', RemoteAddr = ''10.0.0.5:4000'', Header_Range = [], BodyLength = 8200,
          multipart = Some [\<lparr> part_key = ''file'', part_Filename = ''a.txt'', part_Size = 5,
                             part_reads = [(''hello'', None)] \<rparr>] \<rparr>
        (NewFileServer 0 ''recv'' ''recv'' 8080 False, [''recv/a.txt'' \<mapsto> ''existing'']))) = 4096\<close>
  by (simp add: eval_defs split_beta)

text \<open>
  C2 fails on the code. An upload of \<^verbatim>\<open>a.txt\<close> whose second write stores one byte of
  three and fails, and whose third read fails: the loop goes on after the failed write
  and stops at the failed read; the four bytes written stay on disk; the phase is
  \<^verbatim>\<open>completed\<close> with no error message, and the answer is 200 with size 6.
\<close>

theorem handleUpload_io_error_completed:
  \<open>Status (status (fst (snd (handleUpload (\<lambda>dir name. dir @ ''/'' @ name) 0
        \<lparr> up_parsed = 200, up_createErr = None,
          up_writes = [(3, None), (1, Some ''write recv/a.txt: no space left on device'')] \<rparr>
        \<lparr> Method = ''POST'', RemoteAddr = ''10.0.0.5:4000'', Header_Range = [], BodyLength = 200,
          multipart = Some [\<lparr> part_key = ''file'', part_Filename = ''a.txt'', part_Size = 9,
                             part_reads = [(''abc'', None), (''def'', None),
                                           ([], Some ''unexpected EOF'')] \<rparr>] \<rparr>
        (NewFileServer 0 ''recv'' ''recv'' 8080 False, Map.empty))))) = ''completed''
 \<and> Error (status (fst (snd (handleUpload (\<lambda>dir name. dir @ ''/'' @ name) 0
        \<lparr> up_parsed = 200, up_createErr = None,
          up_writes = [(3, None), (1, Some ''write recv/a.txt: no space left on device'')] \<rparr>
        \<lparr> Method = ''POST'', RemoteAddr = ''10.0.0.5:4000'', Header_Range = [], BodyLength = 200,
          multipart = Some [\<lparr> part_key = ''file'', part_Filename = ''a.txt'', part_Size = 9,
                             part_reads = [(''abc'', None), (''def'', None),
                                           ([], Some ''unexpected EOF'')] \<rparr>] \<rparr>
        (NewFileServer 0 ''recv'' ''recv'' 8080 False, Map.empty))))) = []
 \<and> snd (snd (handleUpload (\<lambda>dir name. dir @ ''/'' @ name) 0
        \<lparr> up_parsed = 200, up_createErr = None,
          up_writes = [(3, None), (1, Some ''write recv/a.txt: no space left on device'')] \<rparr>
        \<lparr> Method = ''POST'', RemoteAddr = ''10.0.0.5:4000'', Header_Range = [], BodyLength = 200,
          multipart = Some [\<lparr> part_key = ''file'', part_Filename = ''a.txt'', part_Size = 9,
                             part_reads = [(''abc'', None), (''def'', None),
                                           ([], Some ''unexpected EOF'')] \<rparr>] \<rparr>
        (NewFileServer 0 ''recv'' ''recv'' 8080 False, Map.empty))) ''recv/a.txt'' = Some ''abcd''
 \<and> code (fst (handleUpload (\<lambda>dir name. dir @ ''/'' @ name) 0
        \<lparr> up_parsed = 200, up_createErr = None,
          up_writes = [(3, None), (1, Some ''write recv/a.txt: no space left on device'')] \<rparr>
        \<lparr> Method = ''POST'', RemoteAddr = ''10.0.0.5:4000'', Header_Range = [], BodyLength = 200,
          multipart = Some [\<lparr> part_key = ''file'', part_Filename = ''a.txt'', part_Size = 9,
                             part_reads = [(''abc'', None), (''def'', None),
                                           ([], Some ''unexpected EOF'')] \<rparr>] \<rparr>
        (NewFileServer 0 ''recv'' ''recv'' 8080 False, Map.empty))) = 200
 \<and> out (fst (handleUpload (\<lambda>dir name. dir @ ''/'' @ name) 0
        \<lparr> up_parsed = 200, up_createErr = None,
          up_writes = [(3, None), (1, Some ''write recv/a.txt: no space left on device'')] \<rparr>
        \<lparr> Method = ''POST'', RemoteAddr = ''10.0.0.5:4000'', Header_Range = [], BodyLength = 200,
          multipart = Some [\<lparr> part_key = ''file'', part_Filename = ''a.txt'', part_Size = 9,
                             part_reads = [(''abc'', None), (''def'', None),
                                           ([], Some ''unexpected EOF'')] \<rparr>] \<rparr>
        (NewFileServer 0 ''recv'' ''recv'' 8080 False, Map.empty)))
     = [Data ''{"status":"success","path":"recv/a.txt","size":6}'']\<close>
  by (simp add: eval_defs split_beta itoa_def itoa_nat.simps)

subsection \<open>Download\<close>

text \<open>
  C3 fails on the code. A directory with the single file \<^verbatim>\<open>a.txt\<close>, where \<^verbatim>\<open>io.Copy\<close>
  into the archive fails after 5 of 10 bytes: the walk runs to its end, the phase is
  \<^verbatim>\<open>completed\<close> with no error message, and the archive is closed.
\<close>

theorem handleDownload_zip_write_error_completed:
  \<open>Status (status (snd (handleDownload 0
        \<lparr> dl_statErr = None, dl_IsDir = True, dl_Size = 4096,
          dl_sizeWalk = [(None, True, 4096), (None, False, 10)],
          dl_walk = [\<lparr> we_err = None, we_rel = ''.'', we_IsDir = True, we_headerErr = None,
                       we_openErr = None, we_len = 4096, we_copied = 0, we_copyErr = None \<rparr>,
                     \<lparr> we_err = None, we_rel = ''a.txt'', we_IsDir = False, we_headerErr = None,
                       we_openErr = None, we_len = 10, we_copied = 5,
                       we_copyErr = Some ''write tcp 10.0.0.1:8080->10.0.0.5:4000: write: broken pipe'' \<rparr>],
          dl_openErr = None, dl_reads = [], dl_writeErrs = [] \<rparr>
        \<lparr> Method = ''GET'', RemoteAddr = ''10.0.0.5:4000'', Header_Range = [], BodyLength = 0,
          multipart = None \<rparr>
        (NewFileServer 0 ''send'' ''/srv/dir'' 8080 False)))) = ''completed''
 \<and> Error (status (snd (handleDownload 0
        \<lparr> dl_statErr = None, dl_IsDir = True, dl_Size = 4096,
          dl_sizeWalk = [(None, True, 4096), (None, False, 10)],
          dl_walk = [\<lparr> we_err = None, we_rel = ''.'', we_IsDir = True, we_headerErr = None,
                       we_openErr = None, we_len = 4096, we_copied = 0, we_copyErr = None \<rparr>,
                     \<lparr> we_err = None, we_rel = ''a.txt'', we_IsDir = False, we_headerErr = None,
                       we_openErr = None, we_len = 10, we_copied = 5,
                       we_copyErr = Some ''write tcp 10.0.0.1:8080->10.0.0.5:4000: write: broken pipe'' \<rparr>],
          dl_openErr = None, dl_reads = [], dl_writeErrs = [] \<rparr>
        \<lparr> Method = ''GET'', RemoteAddr = ''10.0.0.5:4000'', Header_Range = [], BodyLength = 0,
          multipart = None \<rparr>
        (NewFileServer 0 ''send'' ''/srv/dir'' 8080 False)))) = []
 \<and> out (fst (handleDownload 0
        \<lparr> dl_statErr = None, dl_IsDir = True, dl_Size = 4096,
          dl_sizeWalk = [(None, True, 4096), (None, False, 10)],
          dl_walk = [\<lparr> we_err = None, we_rel = ''.'', we_IsDir = True, we_headerErr = None,
                       we_openErr = None, we_len = 4096, we_copied = 0, we_copyErr = None \<rparr>,
                     \<lparr> we_err = None, we_rel = ''a.txt'', we_IsDir = False, we_headerErr = None,
                       we_openErr = None, we_len = 10, we_copied = 5,
                       we_copyErr = Some ''write tcp 10.0.0.1:8080->10.0.0.5:4000: write: broken pipe'' \<rparr>],
          dl_openErr = None, dl_reads = [], dl_writeErrs = [] \<rparr>
        \<lparr> Method = ''GET'', RemoteAddr = ''10.0.0.5:4000'', Header_Range = [], BodyLength = 0,
          multipart = None \<rparr>
        (NewFileServer 0 ''send'' ''/srv/dir'' 8080 False)))
     = [ZipHeader ''a.txt'', ZipData 5, ZipClose]\<close>
  by (simp add: eval_defs split_beta)





subsection \<open>The error message of the status\<close>


























subsection \<open>Progress within a transfer\<close>













lemma sent_ops [simp]:
  "sent (broadcastStatus fs) =
     sent fs @ [\<lparr> snap_status = Status (status fs), snap_progress = Progress (status fs),
                  snap_transferred = Transferred (status fs),
                  snap_client_ip = activeClient fs, snap_error = Error (status fs) \<rparr>]"
  "sent (setProgress now t fs) =
     sent fs @ [\<lparr> snap_status = Status (status fs),
                  snap_progress = Progress (status (setProgress now t fs)),
                  snap_transferred = t,
                  snap_client_ip = activeClient fs, snap_error = Error (status fs) \<rparr>]"
  "sent (setError e fs) =
     sent fs @ [\<lparr> snap_status = ''error'', snap_progress = Progress (status fs),
                  snap_transferred = Transferred (status fs),
                  snap_client_ip = activeClient fs, snap_error = e \<rparr>]"
  "sent (setTransferring c sz fs) =
     sent fs @ [\<lparr> snap_status = ''transferring'', snap_progress = Progress (status fs),
                  snap_transferred = Transferred (status fs),
                  snap_client_ip = activeClient fs, snap_error = Error (status fs) \<rparr>]"
  "sent (setCompleted fs) =
     sent fs @ [\<lparr> snap_status = ''completed'', snap_progress = 100,
                  snap_transferred = Transferred (status fs),
                  snap_client_ip = activeClient fs, snap_error = Error (status fs) \<rparr>]"
  "sent (releaseClient now c fs) =
     (if activeClient fs = c
      then sent fs @ [\<lparr> snap_status = Status (status fs), snap_progress = Progress (status fs),
                        snap_transferred = Transferred (status fs),
                        snap_client_ip = [], snap_error = Error (status fs) \<rparr>]
      else sent fs)"
  by (simp_all add: broadcastStatus_def setProgress_def setError_def setTransferring_def
        setCompleted_def releaseClient_def addLog_def Let_def)




end
